theory Spec2Isabelle
  imports Main "HOL-Library.Sublist"
begin

section \<open>Python primitives used by the three patch scripts\<close>

text \<open>
  The repository is three Python scripts, \<^verbatim>\<open>update_chart_controls.py\<close>,
  \<^verbatim>\<open>fix_chart_controls.py\<close> and \<^verbatim>\<open>fix_chart_final.py\<close>. Each opens
  \<^verbatim>\<open>components/HistoricalChart.tsx\<close> in text mode, transforms what it read and
  (unless it stopped before) overwrites the same file.

  A document is the \<open>str\<close> that \<^verbatim>\<open>f.read()\<close> returns, modelled as a
  \<^typ>\<open>string\<close>. Text mode has already turned every line ending into a single
  newline character at that point, so the only line terminator in a document is
  \<open>CHR ''\<newline>''\<close>. All patterns of the scripts are ASCII.
\<close>

text \<open>Python's \<^verbatim>\<open>sub in s\<close> on strings: \<open>sub\<close> occurs in \<open>s\<close> as a contiguous block.\<close>

definition str_contains :: \<open>string \<Rightarrow> string \<Rightarrow> bool\<close> where
  \<open>str_contains sub s = sublist sub s\<close>

text \<open>
  Python's \<^verbatim>\<open>s.replace(old, new)\<close>: scanning from the left, every occurrence of
  \<open>old\<close> that does not overlap an occurrence already replaced becomes \<open>new\<close>.
  \<open>replace_scan\<close> is that scan for a non-empty \<open>old\<close>; after a match it resumes
  behind the matched block (\<open>drop (length old - 1) cs\<close> drops the rest of the block, its
  first character being \<open>c\<close>). For the empty \<open>old\<close> Python puts \<open>new\<close> before
  every character and at the end.
\<close>

fun replace_scan :: \<open>string \<Rightarrow> string \<Rightarrow> string \<Rightarrow> string\<close> where
  \<open>replace_scan old new [] = []\<close>
| \<open>replace_scan old new (c # cs) =
     (if prefix old (c # cs) then new @ replace_scan old new (drop (length old - 1) cs)
      else c # replace_scan old new cs)\<close>

definition str_replace :: \<open>string \<Rightarrow> string \<Rightarrow> string \<Rightarrow> string\<close> where
  \<open>str_replace s old new =
     (if old = [] then new @ concat (map (\<lambda>c. c # new) s) else replace_scan old new s)\<close>

text \<open>
  \<^verbatim>\<open>f.readlines()\<close>: the document cut behind every newline, each line keeping its
  newline; a last line without one is kept as it is, and the empty document has no lines.
  \<^verbatim>\<open>f.writelines(lines)\<close> writes the lines one after the other.
\<close>

fun readlines :: \<open>string \<Rightarrow> string list\<close> where
  \<open>readlines [] = []\<close>
| \<open>readlines (c # cs) =
     (if c = CHR ''\<newline>'' then [c] # readlines cs
      else (case readlines cs of [] \<Rightarrow> [[c]] | l # ls \<Rightarrow> (c # l) # ls))\<close>

definition writelines :: \<open>string list \<Rightarrow> string\<close> where
  \<open>writelines lines = concat lines\<close>

text \<open>
  List indexing \<^verbatim>\<open>xs[i]\<close> with a non-negative index raises \<open>IndexError\<close> out of
  range; \<^verbatim>\<open>xs.insert(i, x)\<close> with a non-negative index puts \<open>x\<close> before position
  \<open>i\<close> and appends when \<open>i\<close> is past the end.
\<close>

datatype py_error = FileNotFoundError | IndexError

definition py_index :: \<open>'a list \<Rightarrow> nat \<Rightarrow> py_error + 'a\<close> where
  \<open>py_index xs i = (if i < length xs then Inr (xs ! i) else Inl IndexError)\<close>

definition list_insert :: \<open>'a list \<Rightarrow> nat \<Rightarrow> 'a \<Rightarrow> 'a list\<close> where
  \<open>list_insert xs i x = take i xs @ x # drop i xs\<close>

section \<open>Runs of a script\<close>

text \<open>
  A run ends by \<^verbatim>\<open>exit(n)\<close>, by reaching the end of the script (status 0), or by an
  exception nobody catches (the interpreter prints a traceback and the status is 1).
  The lines printed on standard output are kept as tags, one constructor per
  \<^verbatim>\<open>print\<close> call of the sources:

  \<^item> \<open>Section_replaced\<close>: "Found and replaced the section";
  \<^item> \<open>Section_not_found\<close>: "Section not found - checking for variations";
  \<^item> \<open>Div_found_exact_match_failed\<close>: "Found the div, but exact match failed";
  \<^item> \<open>Div_not_found\<close>: "Could not find the div at all";
  \<^item> \<open>Closing_replaced\<close>: "Found and replaced the closing section";
  \<^item> \<open>Closing_not_found\<close>: "Closing section not found";
  \<^item> \<open>File_updated\<close>: "File updated successfully!";
  \<^item> \<open>Target_not_found\<close>: "Could not find target line";
  \<^item> \<open>Found_target n\<close>: "Found target at line n";
  \<^item> \<open>Unexpected_structure\<close>: "Unexpected structure";
  \<^item> \<open>Updated_closing n\<close>: "Updated closing at line n";
  \<^item> \<open>Controls_updated\<close>: "Chart controls updated successfully!";
  \<^item> \<open>Fragment_fixed\<close>: "Fixed fragment placement!".
\<close>

datatype status = Exit nat | Uncaught py_error

fun exit_code :: \<open>status \<Rightarrow> nat\<close> where
  \<open>exit_code (Exit n) = n\<close>
| \<open>exit_code (Uncaught e) = 1\<close>

datatype message =
    Section_replaced | Section_not_found | Div_found_exact_match_failed | Div_not_found
  | Closing_replaced | Closing_not_found | File_updated
  | Target_not_found | Found_target nat | Unexpected_structure | Updated_closing nat
  | Controls_updated
  | Fragment_fixed

text \<open>
  What a script does with the document it read: how it ends, what it prints, and the
  content it writes back (\<open>None\<close> when the run never reaches the write).
\<close>

record outcome =
  ended :: status
  printed :: \<open>message list\<close>
  written :: \<open>string option\<close>

text \<open>
  The disk is a partial map from paths to contents. All three scripts have the same
  frame: read the chart component, run the transform, and overwrite the file when the
  transform reached its write. Opening a missing file for reading raises.
\<close>

type_synonym filesystem = \<open>string \<rightharpoonup> string\<close>

definition chart_path :: string where
  \<open>chart_path = ''components/HistoricalChart.tsx''\<close>

definition run_script :: \<open>(string \<Rightarrow> outcome) \<Rightarrow> filesystem \<Rightarrow> outcome \<times> filesystem\<close> where
  \<open>run_script transform disk =
     (case disk chart_path of
        None \<Rightarrow> (\<lparr>ended = Uncaught FileNotFoundError, printed = [], written = None\<rparr>, disk)
      | Some content \<Rightarrow>
          (let r = transform content
           in (r, case written r of None \<Rightarrow> disk | Some c \<Rightarrow> disk(chart_path \<mapsto> c))))\<close>

section \<open>update\_chart\_controls.py\<close>

text \<open>The literal blocks \<^verbatim>\<open>old_section\<close>, \<^verbatim>\<open>new_section\<close>, \<^verbatim>\<open>old_close\<close> and \<^verbatim>\<open>new_close\<close>.\<close>

definition old_section :: string where
  \<open>old_section =
     ''               <div className="flex justify-end items-center gap-4 mt-4">\<newline>'' @
     ''                    {hasChartData && <button onClick={onResetView} className="text-sm text-secondary hover:underline">Reset View</button>}\<newline>'' @
     ''                    {chartView === 'timeline' && (\<newline>'' @
     ''                       <div className="relative" ref={metricConfigRef}>''\<close>

definition new_section :: string where
  \<open>new_section =
     ''               <div className="flex justify-end items-center gap-4 mt-4">\<newline>'' @
     ''                    {hasChartData && <button onClick={onResetView} className="text-sm text-secondary hover:underline">Reset View</button>}\<newline>'' @
     ''                    {chartView === 'timeline' && (\<newline>'' @
     ''                       <>\<newline>'' @
     ''                           {/* Data Averaging Controls */}\<newline>'' @
     ''                           <div className="flex items-center gap-3 border-r border-gray-600 pr-4">\<newline>'' @
     ''                               <label className="flex items-center space-x-2 text-sm text-gray-300 cursor-pointer">\<newline>'' @
     ''                                   <input \<newline>'' @
     ''                                       type="checkbox" \<newline>'' @
     ''                                       checked={averagingEnabled} \<newline>'' @
     ''                                       onChange={(e) => {\<newline>'' @
     ''                                           setAveragingEnabled(e.target.checked);\<newline>'' @
     ''                                           if (!e.target.checked) setManualBucketSize(null);\<newline>'' @
     ''                                       }}\<newline>'' @
     ''                                       className="form-checkbox h-4 w-4 bg-gray-700 border-gray-600 text-secondary focus:ring-secondary"\<newline>'' @
     ''                                   />\<newline>'' @
     ''                                   <span>Data Averaging</span>\<newline>'' @
     ''                               </label>\<newline>'' @
     ''                               {averagingEnabled && (\<newline>'' @
     ''                                   <select \<newline>'' @
     ''                                       value={manualBucketSize || 'auto'} \<newline>'' @
     ''                                       onChange={(e) => setManualBucketSize(e.target.value === 'auto' ? null : e.target.value)}\<newline>'' @
     ''                                       className="bg-gray-700 border border-gray-600 rounded-md px-2 py-1 text-sm text-white focus:ring-secondary focus:border-secondary"\<newline>'' @
     ''                                   >\<newline>'' @
     ''                                       <option value="auto">Auto (Zoom-based)</option>\<newline>'' @
     ''                                       <option value="raw">No Averaging</option>\<newline>'' @
     ''                                       <option value="5">5 Minutes</option>\<newline>'' @
     ''                                       <option value="15">15 Minutes</option>\<newline>'' @
     ''                                       <option value="60">1 Hour</option>\<newline>'' @
     ''                                       <option value="240">4 Hours</option>\<newline>'' @
     ''                                       <option value="1440">1 Day</option>\<newline>'' @
     ''                                   </select>\<newline>'' @
     ''                               )}\<newline>'' @
     ''                           </div>\<newline>'' @
     ''                           <div className="relative" ref={metricConfigRef}>''\<close>

definition old_close :: string where
  \<open>old_close =
     ''                       </div>\<newline>'' @
     ''                    )}\<newline>'' @
     ''                    <button onClick={onGenerate}''\<close>

definition new_close :: string where
  \<open>new_close =
     ''                           </div>\<newline>'' @
     ''                       </>\<newline>'' @
     ''                    )}\<newline>'' @
     ''                    <button onClick={onGenerate}''\<close>

definition div_probe :: string where
  \<open>div_probe = ''className="flex justify-end items-center gap-4 mt-4"''\<close>

text \<open>
  The script: replace the opening block or stop with status 1; then, on the replaced
  content, replace the closing block or stop with status 1; then write.
\<close>

definition update_chart_controls :: \<open>string \<Rightarrow> outcome\<close> where
  \<open>update_chart_controls content =
     (if str_contains old_section content then
        (let content1 = str_replace content old_section new_section
         in if str_contains old_close content1 then
              \<lparr>ended = Exit 0,
               printed = [Section_replaced, Closing_replaced, File_updated],
               written = Some (str_replace content1 old_close new_close)\<rparr>
            else
              \<lparr>ended = Exit 1, printed = [Section_replaced, Closing_not_found], written = None\<rparr>)
      else
        \<lparr>ended = Exit 1,
         printed = [Section_not_found,
                    if str_contains div_probe content then Div_found_exact_match_failed
                    else Div_not_found],
         written = None\<rparr>)\<close>

section \<open>fix\_chart\_controls.py\<close>

definition marker :: string where
  \<open>marker = ''chartView === 'timeline' &&''\<close>

definition div_marker :: string where
  \<open>div_marker = ''<div className="relative"''\<close>

definition indent :: string where
  \<open>indent = ''                       ''\<close>

text \<open>
  The scan for the target line: the first index \<open>i\<close> whose line contains the marker
  and with \<open>i > 200\<close>. \<open>find_target_from i\<close> is the loop standing at index \<open>i\<close>.
\<close>

fun find_target_from :: \<open>nat \<Rightarrow> string list \<Rightarrow> nat option\<close> where
  \<open>find_target_from i [] = None\<close>
| \<open>find_target_from i (line # rest) =
     (if str_contains marker line \<and> i > 200 then Some i else find_target_from (Suc i) rest)\<close>

definition find_target :: \<open>string list \<Rightarrow> nat option\<close> where
  \<open>find_target lines = find_target_from 0 lines\<close>

text \<open>
  \<^verbatim>\<open>new_lines\<close>: the target line with every \<open>(\<close> followed by a line break and
  the opening fragment token, then the thirty lines of the controls.
\<close>

definition new_lines_tail :: \<open>string list\<close> where
  \<open>new_lines_tail =
    [indent @ ''    {/* Data Averaging Controls */}\<newline>'',
     indent @ ''    <div className="flex items-center gap-3 border-r border-gray-600 pr-4">\<newline>'',
     indent @ ''        <label className="flex items-center space-x-2 text-sm text-gray-300 cursor-pointer">\<newline>'',
     indent @ ''            <input \<newline>'',
     indent @ ''                type="checkbox" \<newline>'',
     indent @ ''                checked={averagingEnabled} \<newline>'',
     indent @ ''                onChange={(e) => {\<newline>'',
     indent @ ''                    setAveragingEnabled(e.target.checked);\<newline>'',
     indent @ ''                    if (!e.target.checked) setManualBucketSize(null);\<newline>'',
     indent @ ''                }}\<newline>'',
     indent @ ''                className="form-checkbox h-4 w-4 bg-gray-700 border-gray-600 text-secondary focus:ring-secondary"\<newline>'',
     indent @ ''            />\<newline>'',
     indent @ ''            <span>Data Averaging</span>\<newline>'',
     indent @ ''        </label>\<newline>'',
     indent @ ''        {averagingEnabled && (\<newline>'',
     indent @ ''            <select \<newline>'',
     indent @ ''                value={manualBucketSize || 'auto'} \<newline>'',
     indent @ ''                onChange={(e) => setManualBucketSize(e.target.value === 'auto' ? null : e.target.value)}\<newline>'',
     indent @ ''                className="bg-gray-700 border border-gray-600 rounded-md px-2 py-1 text-sm text-white focus:ring-secondary focus:border-secondary"\<newline>'',
     indent @ ''            >\<newline>'',
     indent @ ''                <option value="auto">Auto (Zoom-based)</option>\<newline>'',
     indent @ ''                <option value="raw">No Averaging</option>\<newline>'',
     indent @ ''                <option value="5">5 Minutes</option>\<newline>'',
     indent @ ''                <option value="15">15 Minutes</option>\<newline>'',
     indent @ ''                <option value="60">1 Hour</option>\<newline>'',
     indent @ ''                <option value="240">4 Hours</option>\<newline>'',
     indent @ ''                <option value="1440">1 Day</option>\<newline>'',
     indent @ ''            </select>\<newline>'',
     indent @ ''        )}\<newline>'',
     indent @ ''    </div>\<newline>'']\<close>

definition new_lines :: \<open>string \<Rightarrow> string list\<close> where
  \<open>new_lines target_line =
     str_replace target_line ''('' (''(\<newline>'' @ indent @ ''<>'') # new_lines_tail\<close>

text \<open>
  \<^verbatim>\<open>for i, new_line in enumerate(new_lines[1:], 1): lines.insert(target_line_idx + i, new_line)\<close>
  after \<^verbatim>\<open>lines[target_line_idx] = new_lines[0]\<close>. The target index is one the scan
  returned, so the read and the store at \<open>t\<close> are in range.
\<close>

fun insert_rest :: \<open>nat \<Rightarrow> nat \<Rightarrow> string list \<Rightarrow> string list \<Rightarrow> string list\<close> where
  \<open>insert_rest t i [] lines = lines\<close>
| \<open>insert_rest t i (new_line # rest) lines =
     insert_rest t (Suc i) rest (list_insert lines (t + i) new_line)\<close>

definition insert_controls :: \<open>string list \<Rightarrow> nat \<Rightarrow> string list\<close> where
  \<open>insert_controls lines t =
     (let nl = new_lines (lines ! t)
      in insert_rest t 1 (drop 1 nl) (lines[t := nl ! 0]))\<close>

text \<open>
  The closing fixup. The loop runs over
  \<^verbatim>\<open>range(target_line_idx + 50, min(target_line_idx + 100, len(lines) - 1))\<close>; its
  condition is evaluated left to right and stops at the first false conjunct, and
  every index read can raise. The first index that passes all four conjuncts gets the
  closing fragment token put in front of line \<open>i + 1\<close>, and the loop stops.
  (\<open>length lines - 1\<close> is \<open>0\<close> instead of \<open>-1\<close> for no lines; the range is empty
  either way.)
\<close>

definition fragment_close :: string where
  \<open>fragment_close = ''                       </>\<newline>''\<close>

fun fixup_loop :: \<open>nat list \<Rightarrow> string list \<Rightarrow> py_error + (string list \<times> message list)\<close> where
  \<open>fixup_loop [] lines = Inr (lines, [])\<close>
| \<open>fixup_loop (i # rest) lines =
     (case py_index lines i of
        Inl e \<Rightarrow> Inl e
      | Inr line_i \<Rightarrow>
          if \<not> str_contains ''</div>'' line_i then fixup_loop rest lines
          else if \<not> i + 1 < length lines then fixup_loop rest lines
          else (case py_index lines (i + 1) of
                  Inl e \<Rightarrow> Inl e
                | Inr line_i1 \<Rightarrow>
                    if \<not> str_contains '')}\<newline>'' line_i1 then fixup_loop rest lines
                    else (case py_index lines (i + 2) of
                            Inl e \<Rightarrow> Inl e
                          | Inr line_i2 \<Rightarrow>
                              if str_contains ''chartView'' line_i2 then fixup_loop rest lines
                              else Inr (lines[i + 1 := fragment_close @ line_i1],
                                        [Updated_closing (i + 2)]))))\<close>

definition fixup :: \<open>string list \<Rightarrow> nat \<Rightarrow> py_error + (string list \<times> message list)\<close> where
  \<open>fixup lines t = fixup_loop [t + 50 ..< min (t + 100) (length lines - 1)] lines\<close>

text \<open>The script on the lines it read, and on the document.\<close>

definition fix_chart_controls_lines :: \<open>string list \<Rightarrow> outcome\<close> where
  \<open>fix_chart_controls_lines lines =
     (case find_target lines of
        None \<Rightarrow> \<lparr>ended = Exit 1, printed = [Target_not_found], written = None\<rparr>
      | Some t \<Rightarrow>
          (case py_index lines (t + 1) of
             Inl e \<Rightarrow> \<lparr>ended = Uncaught e, printed = [Found_target (t + 1)], written = None\<rparr>
           | Inr next_line \<Rightarrow>
               if \<not> str_contains div_marker next_line then
                 \<lparr>ended = Exit 1, printed = [Found_target (t + 1), Unexpected_structure],
                  written = None\<rparr>
               else
                 (case fixup (insert_controls lines t) t of
                    Inl e \<Rightarrow>
                      \<lparr>ended = Uncaught e, printed = [Found_target (t + 1)], written = None\<rparr>
                  | Inr (lines', msgs) \<Rightarrow>
                      \<lparr>ended = Exit 0,
                       printed = Found_target (t + 1) # msgs @ [Controls_updated],
                       written = Some (writelines lines')\<rparr>)))\<close>

definition fix_chart_controls :: \<open>string \<Rightarrow> outcome\<close> where
  \<open>fix_chart_controls content = fix_chart_controls_lines (readlines content)\<close>

section \<open>fix\_chart\_final.py\<close>

text \<open>
  The two replacements of the script, each given as its pair of literal blocks: the
  misplaced closing token is taken out, and the closing token is put in front of the
  end of the timeline conditional. Nothing is tested; the write always happens.
\<close>

definition misplaced_close_old :: string where
  \<open>misplaced_close_old =
     ''                                                           </div>\<newline>'' @
     ''                          </>\<newline>'' @
     ''                                                       )}''\<close>

definition misplaced_close_new :: string where
  \<open>misplaced_close_new =
     ''                                                           </div>\<newline>'' @
     ''                                                       )}''\<close>

definition final_close_old :: string where
  \<open>final_close_old =
     ''                               </div>\<newline>'' @
     ''                           )}\<newline>'' @
     ''                       </div>\<newline>'' @
     ''                    )}\<newline>'' @
     ''                    <button onClick={onGenerate}''\<close>

definition final_close_new :: string where
  \<open>final_close_new =
     ''                               </div>\<newline>'' @
     ''                           )}\<newline>'' @
     ''                       </div>\<newline>'' @
     ''                       </>\<newline>'' @
     ''                    )}\<newline>'' @
     ''                    <button onClick={onGenerate}''\<close>

definition fix_chart_final :: \<open>string \<Rightarrow> outcome\<close> where
  \<open>fix_chart_final content =
     \<lparr>ended = Exit 0,
      printed = [Fragment_fixed],
      written = Some (str_replace
                        (str_replace content misplaced_close_old misplaced_close_new)
                        final_close_old final_close_new)\<rparr>\<close>

section \<open>A sample chart component\<close>





section \<open>Sample documents for fix\_chart\_controls.py\<close>

text \<open>
  Documents are given by their lines. Each has 201 empty lines first, so that the
  line of the timeline conditional has index 201 and passes the floor of the scan.
\<close>

definition blank :: string where
  \<open>blank = ''\<newline>''\<close>

definition marker_line :: string where
  \<open>marker_line = ''                    {chartView === 'timeline' && (\<newline>''\<close>

definition div_line :: string where
  \<open>div_line = ''                       <div className="relative" ref={metricConfigRef}>\<newline>''\<close>

text \<open>The lines that follow the first fifty lines behind the target in \<open>two_closings\<close>.\<close>

definition two_closings_end :: \<open>string list\<close> where
  \<open>two_closings_end =
     [''                           </div>\<newline>'',
      ''                       )}\<newline>'',
      ''                       {chartView === 'table' && (\<newline>'',
      ''                       </div>\<newline>'',
      ''                    )}\<newline>'',
      ''                    <button onClick={onGenerate}>Generate</button>\<newline>'',
      ''               </div>\<newline>'']\<close>

text \<open>
  \<open>two_closings\<close>: behind the target, a closing pair followed by another
  \<open>chartView\<close> conditional, then a closing pair followed by a button.
\<close>

definition two_closings :: \<open>string list\<close> where
  \<open>two_closings =
     replicate 201 blank @ [marker_line, div_line] @ replicate 18 blank @ two_closings_end\<close>

text \<open>\<open>closing_at_end\<close>: the document ends with the closing pair.\<close>

definition closing_at_end :: \<open>string list\<close> where
  \<open>closing_at_end =
     replicate 201 blank @ [marker_line, div_line] @ replicate 18 blank @
     [''                       </div>\<newline>'', ''                    )}\<newline>'']\<close>

text \<open>\<open>marker_last\<close>: the line of the conditional is the last line.\<close>

definition marker_last :: \<open>string list\<close> where
  \<open>marker_last = replicate 201 blank @ [marker_line]\<close>

text \<open>\<open>no_closing\<close>: only empty lines behind the opening \<open>div\<close>.\<close>

definition no_closing :: \<open>string list\<close> where
  \<open>no_closing = replicate 201 blank @ [marker_line, div_line] @ replicate 30 blank\<close>

text \<open>\<open>span_follows\<close>: the line behind the conditional is not the expected \<open>div\<close>.\<close>

definition span_follows :: \<open>string list\<close> where
  \<open>span_follows = replicate 201 blank @ [marker_line, ''<span>\<newline>'']\<close>

text \<open>\<open>marker_early\<close>: the conditional occurs, but before the floor.\<close>

definition marker_early :: \<open>string list\<close> where
  \<open>marker_early = [marker_line, div_line, ''</div>\<newline>'']\<close>

text \<open>
  \<open>two_markers\<close>: the conditional's text occurs at index 3 and again at index 201.
\<close>

definition two_markers :: \<open>string list\<close> where
  \<open>two_markers =
     replicate 3 blank @ [marker_line] @ replicate 197 blank @ [marker_line, div_line]\<close>

section \<open>The fixup as the specification words it\<close>

text \<open>
  The specification describes the fixup by a two-line pattern: within the window, the
  first line containing \<^verbatim>\<open></div>\<close> whose next line contains \<^verbatim>\<open>)}\<close> and a
  newline gets the closing fragment token put in front of that next line.
  \<open>claimed_fixup\<close> follows these words, for comparison with \<open>fixup\<close>.
\<close>

fun claimed_fixup_loop :: \<open>nat list \<Rightarrow> string list \<Rightarrow> string list \<times> message list\<close> where
  \<open>claimed_fixup_loop [] lines = (lines, [])\<close>
| \<open>claimed_fixup_loop (i # rest) lines =
     (if str_contains ''</div>'' (lines ! i) \<and> str_contains '')}\<newline>'' (lines ! (i + 1))
      then (lines[i + 1 := fragment_close @ lines ! (i + 1)], [Updated_closing (i + 2)])
      else claimed_fixup_loop rest lines)\<close>

definition claimed_fixup :: \<open>string list \<Rightarrow> nat \<Rightarrow> string list \<times> message list\<close> where
  \<open>claimed_fixup lines t =
     claimed_fixup_loop [t + 50 ..< min (t + 100) (length lines - 1)] lines\<close>

section \<open>Running the scripts one after the other\<close>




section \<open>Properties of the string primitives\<close>

lemma replace_scan_absent:
  \<open>\<not> sublist old s \<Longrightarrow> replace_scan old new s = s\<close>
proof (induction s)
  case Nil
  show ?case by simp
next
  case (Cons c cs)
  from Cons.prems have np: \<open>\<not> prefix old (c # cs)\<close> and ns: \<open>\<not> sublist old cs\<close>
    by (auto simp: sublist_Cons_right)
  from Cons.IH [OF ns] np show ?case by simp
qed

lemma replace_scan_at_match:
  assumes \<open>old \<noteq> []\<close>
  shows \<open>replace_scan old new (old @ q) = new @ replace_scan old new q\<close>
proof -
  from assms obtain c cs where old: \<open>old = c # cs\<close> by (cases old) auto
  have \<open>prefix old (c # cs @ q)\<close> by (simp add: old)
  then have \<open>replace_scan old new (c # cs @ q) =
      new @ replace_scan old new (drop (length old - 1) (cs @ q))\<close>
    by simp
  then show ?thesis by (simp add: old)
qed

text \<open>The scan copies a stretch \<open>p\<close> in which no occurrence of \<open>old\<close> starts.\<close>

lemma replace_scan_pass:
  \<open>(\<And>p1 p2. p = p1 @ p2 \<Longrightarrow> p2 \<noteq> [] \<Longrightarrow> \<not> prefix old (p2 @ rest))
   \<Longrightarrow> replace_scan old new (p @ rest) = p @ replace_scan old new rest\<close>
proof (induction p)
  case Nil
  show ?case by simp
next
  case (Cons c p)
  have \<open>\<not> prefix old ((c # p) @ rest)\<close>
    using Cons.prems [of \<open>[]\<close> \<open>c # p\<close>] by simp
  moreover have \<open>replace_scan old new (p @ rest) = p @ replace_scan old new rest\<close>
  proof (rule Cons.IH)
    fix p1 p2 assume \<open>p = p1 @ p2\<close> \<open>p2 \<noteq> []\<close>
    then show \<open>\<not> prefix old (p2 @ rest)\<close> using Cons.prems [of \<open>c # p1\<close> p2] by simp
  qed
  ultimately show ?case by simp
qed

lemma replace_scan_unique:
  assumes ne: \<open>old \<noteq> []\<close>
    and uniq: \<open>\<And>p' q'. p @ old @ q = p' @ old @ q' \<Longrightarrow> p' = p\<close>
  shows \<open>replace_scan old new (p @ old @ q) = p @ new @ q\<close>
proof -
  have \<open>replace_scan old new (p @ old @ q) = p @ replace_scan old new (old @ q)\<close>
  proof (rule replace_scan_pass)
    fix p1 p2 assume p: \<open>p = p1 @ p2\<close> and p2: \<open>p2 \<noteq> []\<close>
    show \<open>\<not> prefix old (p2 @ old @ q)\<close>
    proof
      assume \<open>prefix old (p2 @ old @ q)\<close>
      then obtain r where \<open>p2 @ old @ q = old @ r\<close> by (auto simp: prefix_def)
      then have \<open>p @ old @ q = p1 @ old @ r\<close> by (simp add: p)
      then have \<open>p1 = p\<close> by (rule uniq)
      with p p2 show False by simp
    qed
  qed
  also have \<open>\<dots> = p @ new @ replace_scan old new q\<close>
    using ne by (simp add: replace_scan_at_match)
  also have \<open>replace_scan old new q = q\<close>
  proof (rule replace_scan_absent)
    show \<open>\<not> sublist old q\<close>
    proof
      assume \<open>sublist old q\<close>
      then obtain a b where \<open>q = a @ old @ b\<close> by (auto simp: sublist_def)
      then have \<open>p @ old @ q = (p @ old @ a) @ old @ b\<close> by simp
      then have \<open>p @ old @ a = p\<close> by (rule uniq)
      with ne show False by simp
    qed
  qed
  finally show ?thesis .
qed

lemma first_occurrence_unique:
  assumes \<open>xs @ g # ys = xs' @ g # ys'\<close> and \<open>g \<notin> set xs\<close> and \<open>g \<notin> set xs'\<close>
  shows \<open>xs = xs'\<close>
proof -
  have \<open>takeWhile (\<lambda>x. x \<noteq> g) (xs @ g # ys) = xs\<close>
    using assms(2) by (induction xs) auto
  moreover have \<open>takeWhile (\<lambda>x. x \<noteq> g) (xs' @ g # ys') = xs'\<close>
    using assms(3) by (induction xs') auto
  ultimately show ?thesis using assms(1) by simp
qed


lemma shorter_not_contains:
  \<open>length s < length sub \<Longrightarrow> \<not> sublist sub s\<close>
  using sublist_length_le [of sub s] by auto

section \<open>Whole-string replacement\<close>

text \<open>
  C4. When the document contains the old block exactly once, that is as
  \<open>p @ old @ q\<close> and at no other position, \<^verbatim>\<open>replace\<close> returns \<open>p @ new @ q\<close>:
  the text before the match and the text after it are kept as they are, and the
  matched region is the new block. (The empty block occurs exactly once only in the
  empty document, where the result is the new block.)
\<close>

theorem str_replace_single_occurrence:
  assumes uniq: \<open>\<forall>p' q'. p @ old @ q = p' @ old @ q' \<longrightarrow> p' = p\<close>
  shows \<open>str_replace (p @ old @ q) old new = p @ new @ q\<close>
proof (cases \<open>old = []\<close>)
  case True
  have \<open>p @ old @ q = [] @ old @ (p @ q)\<close> using True by simp
  with uniq have p: \<open>p = []\<close> by blast
  have \<open>p @ old @ q = (p @ q) @ old @ []\<close> using True by simp
  with uniq have \<open>p @ q = p\<close> by blast
  with p True show ?thesis by (simp add: str_replace_def)
next
  case False
  with uniq show ?thesis by (simp add: str_replace_def replace_scan_unique)
qed

lemma unique_by_char:
  assumes old: \<open>old = u @ g # v\<close>
    and g: \<open>g \<notin> set p\<close> \<open>g \<notin> set u\<close> \<open>g \<notin> set v\<close> \<open>g \<notin> set q\<close>
    and eq: \<open>p @ old @ q = p' @ old @ q'\<close>
  shows \<open>p' = p\<close>
proof -
  have \<open>count_list (p @ old @ q) g = 1\<close> using g by (simp add: old)
  then have \<open>count_list (p' @ old @ q') g = 1\<close> by (simp add: eq)
  then have \<open>count_list p' g = 0\<close> using g by (simp add: old)
  then have g': \<open>g \<notin> set p'\<close> by (simp add: count_list_0_iff)
  have \<open>(p' @ u) @ g # (v @ q') = (p @ u) @ g # (v @ q)\<close> using eq by (simp add: old)
  moreover have \<open>g \<notin> set (p' @ u)\<close> using g' g by simp
  moreover have \<open>g \<notin> set (p @ u)\<close> using g by simp
  ultimately have \<open>p' @ u = p @ u\<close> by (rule first_occurrence_unique)
  then show ?thesis by simp
qed

lemma old_close_split:
  \<open>old_close =
     (''                       </div>\<newline>'' @
      ''                    )}\<newline>'' @
      ''                    <button onClick={on'') @ CHR ''G'' # ''enerate}''\<close>
  by (simp add: old_close_def)

lemma old_close_G:
  \<open>CHR ''G'' \<notin> set (''                       </div>\<newline>'' @
      ''                    )}\<newline>'' @
      ''                    <button onClick={on'')\<close>
  by simp

text \<open>An instance of C4: the closing block of the script between two short texts.\<close>

theorem str_replace_single_occurrence_witness:
  \<open>\<not> (\<exists>p' q'. ''<a>\<newline>'' @ old_close @ ''>Run</button>\<newline>'' = p' @ old_close @ q' \<and> p' \<noteq> ''<a>\<newline>'') \<and>
   str_replace (''<a>\<newline>'' @ old_close @ ''>Run</button>\<newline>'') old_close new_close =
     ''<a>\<newline>'' @ new_close @ ''>Run</button>\<newline>''\<close>
proof -
  have uniq: \<open>\<forall>p' q'. ''<a>\<newline>'' @ old_close @ ''>Run</button>\<newline>'' = p' @ old_close @ q' \<longrightarrow> p' = ''<a>\<newline>''\<close>
  proof (intro allI impI)
    fix p' q'
    assume eq: \<open>''<a>\<newline>'' @ old_close @ ''>Run</button>\<newline>'' = p' @ old_close @ q'\<close>
    show \<open>p' = ''<a>\<newline>''\<close>
      by (rule unique_by_char [OF old_close_split _ old_close_G _ _ eq]) simp_all
  qed
  from uniq have \<open>\<not> (\<exists>p' q'. ''<a>\<newline>'' @ old_close @ ''>Run</button>\<newline>'' = p' @ old_close @ q' \<and> p' \<noteq> ''<a>\<newline>'')\<close>
    by blast
  with str_replace_single_occurrence [OF uniq, of new_close]
  show ?thesis by blast
qed

section \<open>update\_chart\_controls.py: aborted runs\<close>

lemma old_section_nonempty: \<open>old_section \<noteq> []\<close>
  by (simp add: old_section_def)


lemma G_notin_new_section: \<open>CHR ''G'' \<notin> set new_section\<close>
  by (simp add: new_section_def)

lemma old_close_notin_new_section: \<open>\<not> str_contains old_close new_section\<close>
proof
  assume \<open>str_contains old_close new_section\<close>
  then have \<open>set old_close \<subseteq> set new_section\<close>
    by (simp add: str_contains_def set_mono_sublist)
  moreover have \<open>CHR ''G'' \<in> set old_close\<close> by (simp add: old_close_split)
  ultimately show False using G_notin_new_section by blast
qed

text \<open>
  C3. When the opening block was found (and replaced in memory) but the closing block is
  absent from the replaced content, the run prints the closing diagnostic, ends with
  status 1 and never reaches its write: the disk after the run is the disk before it.
\<close>

theorem update_close_absent_no_write:
  assumes \<open>disk chart_path = Some content\<close>
    and \<open>str_contains old_section content\<close>
    and \<open>\<not> str_contains old_close (str_replace content old_section new_section)\<close>
  shows \<open>run_script update_chart_controls disk =
           (\<lparr>ended = Exit 1, printed = [Section_replaced, Closing_not_found], written = None\<rparr>,
            disk)\<close>
  using assms by (simp add: run_script_def update_chart_controls_def)

text \<open>An instance of C3: the file holds the opening block and nothing else.\<close>

theorem update_close_absent_no_write_witness:
  \<open>[chart_path \<mapsto> old_section] chart_path = Some old_section \<and>
   str_contains old_section old_section \<and>
   \<not> str_contains old_close (str_replace old_section old_section new_section) \<and>
   run_script update_chart_controls [chart_path \<mapsto> old_section] =
     (\<lparr>ended = Exit 1, printed = [Section_replaced, Closing_not_found], written = None\<rparr>,
      [chart_path \<mapsto> old_section])\<close>
proof -
  have a: \<open>[chart_path \<mapsto> old_section] chart_path = Some old_section\<close> by simp
  have b: \<open>str_contains old_section old_section\<close> by (simp add: str_contains_def)
  have \<open>str_replace old_section old_section new_section = new_section\<close>
    using replace_scan_at_match [OF old_section_nonempty, of new_section \<open>[]\<close>]
    by (simp add: str_replace_def old_section_nonempty)
  then have c: \<open>\<not> str_contains old_close (str_replace old_section old_section new_section)\<close>
    using old_close_notin_new_section by simp
  from a b c update_close_absent_no_write [where disk = \<open>[chart_path \<mapsto> old_section]\<close>, OF a b c] show ?thesis by blast
qed

section \<open>fix\_chart\_final.py: no anchor is required\<close>

text \<open>
  C10. The script tests nothing: whatever the document, it does both replacements,
  writes the result, prints its success line and ends with status 0. When neither block
  occurs in the document, what it writes is the document it read.
\<close>

theorem fix_chart_final_always_writes:
  assumes \<open>disk chart_path = Some content\<close>
  shows \<open>run_script fix_chart_final disk =
           (\<lparr>ended = Exit 0, printed = [Fragment_fixed],
             written = Some (str_replace
                               (str_replace content misplaced_close_old misplaced_close_new)
                               final_close_old final_close_new)\<rparr>,
            disk(chart_path \<mapsto>
                   str_replace (str_replace content misplaced_close_old misplaced_close_new)
                     final_close_old final_close_new)) \<and>
         (\<not> str_contains misplaced_close_old content \<and> \<not> str_contains final_close_old content
            \<longrightarrow> str_replace (str_replace content misplaced_close_old misplaced_close_new)
                   final_close_old final_close_new = content)\<close>
  using assms
  by (simp add: run_script_def fix_chart_final_def str_replace_def str_contains_def
      replace_scan_absent)

text \<open>An instance of C10: a two-line document with neither block.\<close>

theorem fix_chart_final_always_writes_witness:
  \<open>\<not> str_contains misplaced_close_old ''<div>\<newline></div>\<newline>'' \<and>
   \<not> str_contains final_close_old ''<div>\<newline></div>\<newline>'' \<and>
   run_script fix_chart_final [chart_path \<mapsto> ''<div>\<newline></div>\<newline>''] =
     (\<lparr>ended = Exit 0, printed = [Fragment_fixed],
       written = Some ''<div>\<newline></div>\<newline>''\<rparr>,
      [chart_path \<mapsto> ''<div>\<newline></div>\<newline>''])\<close>
proof -
  let ?c = \<open>''<div>\<newline></div>\<newline>''\<close>
  have a: \<open>[chart_path \<mapsto> ?c] chart_path = Some ?c\<close> by simp
  have b: \<open>\<not> str_contains misplaced_close_old ?c\<close>
    unfolding str_contains_def
    by (rule shorter_not_contains) (simp add: misplaced_close_old_def)
  have c: \<open>\<not> str_contains final_close_old ?c\<close>
    unfolding str_contains_def
    by (rule shorter_not_contains) (simp add: final_close_old_def)
  from fix_chart_final_always_writes [where disk = \<open>[chart_path \<mapsto> ?c]\<close>, OF a] b c
  show ?thesis by simp
qed

section \<open>fix\_chart\_final.py does not stop on a missing block\<close>

text \<open>
  C1 as stated fails for \<^verbatim>\<open>fix_chart_final.py\<close>: on a document containing neither
  of its blocks the run ends with status 0 after printing its success line.
\<close>

theorem fix_chart_final_missing_blocks_exit_0:
  \<open>\<not> str_contains misplaced_close_old ''export default App;\<newline>'' \<and>
   \<not> str_contains final_close_old ''export default App;\<newline>'' \<and>
   exit_code (ended (fst (run_script fix_chart_final
      [chart_path \<mapsto> ''export default App;\<newline>'']))) = 0 \<and>
   printed (fst (run_script fix_chart_final
      [chart_path \<mapsto> ''export default App;\<newline>''])) = [Fragment_fixed]\<close>
proof -
  let ?c = \<open>''export default App;\<newline>''\<close>
  have b: \<open>\<not> str_contains misplaced_close_old ?c\<close>
    unfolding str_contains_def
    by (rule shorter_not_contains) (simp add: misplaced_close_old_def)
  have c: \<open>\<not> str_contains final_close_old ?c\<close>
    unfolding str_contains_def
    by (rule shorter_not_contains) (simp add: final_close_old_def)
  have \<open>ended (fst (run_script fix_chart_final [chart_path \<mapsto> ?c])) = Exit 0\<close>
    and \<open>printed (fst (run_script fix_chart_final [chart_path \<mapsto> ?c])) = [Fragment_fixed]\<close>
    by (simp_all add: run_script_def fix_chart_final_def)
  with b c show ?thesis by simp
qed

section \<open>Lines\<close>

lemma writelines_readlines: \<open>writelines (readlines s) = s\<close>
  unfolding writelines_def
  by (induction s) (auto split: list.splits)

lemma readlines_line:
  \<open>CHR ''\<newline>'' \<notin> set body \<Longrightarrow>
   readlines (body @ CHR ''\<newline>'' # rest) = (body @ [CHR ''\<newline>'']) # readlines rest\<close>
  by (induction body) auto

text \<open>A terminated line: some text without a newline, then the newline.\<close>

lemma readlines_terminated:
  assumes \<open>\<forall>l \<in> set ls. l \<noteq> [] \<and> last l = CHR ''\<newline>'' \<and> CHR ''\<newline>'' \<notin> set (butlast l)\<close>
  shows \<open>readlines (concat ls) = ls\<close>
  using assms
proof (induction ls)
  case Nil
  show ?case by simp
next
  case (Cons l ls)
  from Cons.prems have \<open>l \<noteq> []\<close> and \<open>last l = CHR ''\<newline>''\<close>
    and nl: \<open>CHR ''\<newline>'' \<notin> set (butlast l)\<close>
    by simp_all
  then have l: \<open>butlast l @ [CHR ''\<newline>''] = l\<close>
    using append_butlast_last_id [of l] by simp
  have c: \<open>concat (l # ls) = butlast l @ CHR ''\<newline>'' # concat ls\<close>
    using l by (metis append.assoc append_Cons append_Nil concat.simps(2))
  have \<open>readlines (concat (l # ls)) = (butlast l @ [CHR ''\<newline>'']) # readlines (concat ls)\<close>
    unfolding c using nl by (rule readlines_line)
  also have \<open>readlines (concat ls) = ls\<close>
    using Cons.prems by (intro Cons.IH) simp
  finally show ?case by (simp only: l)
qed

section \<open>The scan for the target line\<close>

lemma find_target_from_Some:
  \<open>find_target_from k ls = Some i \<longleftrightarrow>
     (\<exists>n<length ls. i = k + n \<and> 200 < i \<and> str_contains marker (ls ! n) \<and>
        (\<forall>m<n. 200 < k + m \<longrightarrow> \<not> str_contains marker (ls ! m)))\<close>
  (is \<open>?L k ls \<longleftrightarrow> ?R k ls\<close>)
proof (induction ls arbitrary: k)
  case Nil
  show ?case by simp
next
  case (Cons l ls)
  show ?case
  proof (cases \<open>str_contains marker l \<and> 200 < k\<close>)
    case True
    then have \<open>?L k (l # ls) \<longleftrightarrow> i = k\<close> by auto
    moreover have \<open>?R k (l # ls) \<longleftrightarrow> i = k\<close>
    proof
      assume \<open>?R k (l # ls)\<close>
      then obtain n where n: \<open>i = k + n\<close>
        \<open>\<forall>m<n. 200 < k + m \<longrightarrow> \<not> str_contains marker ((l # ls) ! m)\<close>
        by blast
      have \<open>n = 0\<close>
      proof (rule ccontr)
        assume \<open>n \<noteq> 0\<close>
        then have \<open>0 < n\<close> by simp
        with n(2) have \<open>200 < k + 0 \<longrightarrow> \<not> str_contains marker ((l # ls) ! 0)\<close> by blast
        with True show False by simp
      qed
      with n show \<open>i = k\<close> by simp
    next
      assume \<open>i = k\<close>
      with True show \<open>?R k (l # ls)\<close> by (intro exI [of _ 0]) simp
    qed
    ultimately show ?thesis by simp
  next
    case False
    then have \<open>?L k (l # ls) \<longleftrightarrow> ?L (Suc k) ls\<close> by auto
    also have \<open>\<dots> \<longleftrightarrow> ?R (Suc k) ls\<close> by (rule Cons.IH)
    also have \<open>\<dots> \<longleftrightarrow> ?R k (l # ls)\<close>
      using False by (auto simp: Ex_less_Suc2 All_less_Suc2)
    finally show ?thesis .
  qed
qed

lemma find_target_from_None:
  \<open>find_target_from k ls = None \<longleftrightarrow>
     (\<forall>n<length ls. 200 < k + n \<longrightarrow> \<not> str_contains marker (ls ! n))\<close>
proof (induction ls arbitrary: k)
  case Nil
  show ?case by simp
next
  case (Cons l ls)
  show ?case
    by (auto simp: Cons.IH All_less_Suc2)
qed


text \<open>
  C5. The scan returns index \<open>i\<close> exactly when \<open>i\<close> is the first index past the
  floor (\<open>i > 200\<close>) whose line contains the marker; occurrences at or before the floor
  are passed over. It returns \<open>None\<close> exactly when no line past the floor contains the
  marker.
\<close>

theorem find_target_first_past_floor:
  \<open>(find_target lines = Some i \<longleftrightarrow>
      i < length lines \<and> 200 < i \<and> str_contains marker (lines ! i) \<and>
      (\<forall>j<i. 200 < j \<longrightarrow> \<not> str_contains marker (lines ! j))) \<and>
   (find_target lines = None \<longleftrightarrow>
      (\<forall>j<length lines. 200 < j \<longrightarrow> \<not> str_contains marker (lines ! j)))\<close>
  unfolding find_target_def find_target_from_Some find_target_from_None
  by auto

lemma marker_in_marker_line: \<open>str_contains marker marker_line\<close>
proof -
  have eq: \<open>marker_line = ''                    {'' @ marker @ '' (\<newline>''\<close>
    by (simp add: marker_line_def marker_def)
  show ?thesis unfolding str_contains_def by (subst eq) (rule sublist_appendI)
qed

lemma find_target_201:
  assumes \<open>201 < length ls\<close> and \<open>str_contains marker (ls ! 201)\<close>
  shows \<open>find_target ls = Some 201\<close>
  unfolding find_target_def find_target_from_Some
  using assms by (intro exI [of _ 201]) auto

text \<open>
  An instance of C5: in \<open>two_markers\<close> the marker occurs at index 3 and at index 201;
  the scan passes over the first and returns the second.
\<close>

theorem find_target_first_past_floor_witness:
  \<open>str_contains marker (two_markers ! 3) \<and> str_contains marker (two_markers ! 201) \<and>
   find_target two_markers = Some 201\<close>
proof -
  have len: \<open>201 < length two_markers\<close> by (simp add: two_markers_def)
  have at3: \<open>two_markers ! 3 = marker_line\<close> by (simp add: two_markers_def nth_append)
  have at201: \<open>two_markers ! 201 = marker_line\<close> by (simp add: two_markers_def nth_append)
  have first: \<open>\<forall>j<201. 200 < j \<longrightarrow> \<not> str_contains marker (two_markers ! j)\<close> by simp
  have \<open>find_target two_markers = Some 201\<close>
    using find_target_first_past_floor [of two_markers 201] len at201 first
      marker_in_marker_line by simp
  with at3 at201 marker_in_marker_line show ?thesis by simp
qed

section \<open>Inserting the controls\<close>

lemma insert_rest_eq:
  \<open>t + i \<le> length ls \<Longrightarrow>
   insert_rest t i xs ls = take (t + i) ls @ xs @ drop (t + i) ls\<close>
proof (induction xs arbitrary: i ls)
  case Nil
  show ?case by simp
next
  case (Cons x xs)
  let ?ls = \<open>list_insert ls (t + i) x\<close>
  have len: \<open>t + Suc i \<le> length ?ls\<close>
    using Cons.prems by (simp add: list_insert_def)
  have tk: \<open>take (Suc (t + i)) ?ls = take (t + i) ls @ [x]\<close>
    using Cons.prems by (simp add: list_insert_def min_absorb2)
  have dr: \<open>drop (Suc (t + i)) ?ls = drop (t + i) ls\<close>
    using Cons.prems by (simp add: list_insert_def min_absorb2)
  show ?case
    using Cons.IH [OF len] by (simp add: tk dr)
qed

lemma insert_controls_eq:
  assumes \<open>t < length lines\<close>
  shows \<open>insert_controls lines t = take t lines @ new_lines (lines ! t) @ drop (Suc t) lines\<close>
proof -
  have \<open>take (Suc t) (lines[t := x]) = take t lines @ [x]\<close> for x
    using assms by (simp add: take_Suc_conv_app_nth)
  moreover have \<open>drop (Suc t) (lines[t := x]) = drop (Suc t) lines\<close> for x
    by simp
  ultimately show ?thesis
    using assms by (simp add: insert_controls_def new_lines_def insert_rest_eq)
qed

section \<open>The closing fixup\<close>

text \<open>
  At index \<open>i\<close> the loop passes on when the closing pair is absent, or present but
  followed by a line that contains \<open>chartView\<close>.
\<close>

lemma fixup_loop_pass:
  assumes \<open>\<And>j. j \<in> set pre \<Longrightarrow> j + 1 < length ls \<and>
      (str_contains ''</div>'' (ls ! j) \<and> str_contains '')}\<newline>'' (ls ! (j + 1))
         \<longrightarrow> j + 2 < length ls \<and> str_contains ''chartView'' (ls ! (j + 2)))\<close>
  shows \<open>fixup_loop (pre @ rest) ls = fixup_loop rest ls\<close>
  using assms
proof (induction pre)
  case Nil
  show ?case by simp
next
  case (Cons j pre)
  from Cons.prems [of j] have \<open>j + 1 < length ls\<close>
    and \<open>str_contains ''</div>'' (ls ! j) \<and> str_contains '')}\<newline>'' (ls ! (j + 1))
         \<longrightarrow> j + 2 < length ls \<and> str_contains ''chartView'' (ls ! (j + 2))\<close>
    by simp_all
  then have \<open>fixup_loop (j # pre @ rest) ls = fixup_loop (pre @ rest) ls\<close>
    by (auto simp: py_index_def)
  moreover have \<open>fixup_loop (pre @ rest) ls = fixup_loop rest ls\<close>
    using Cons.prems by (intro Cons.IH) simp
  ultimately show ?case by simp
qed

lemma fixup_loop_hit:
  assumes \<open>i + 2 < length ls\<close>
    and \<open>str_contains ''</div>'' (ls ! i)\<close>
    and \<open>str_contains '')}\<newline>'' (ls ! (i + 1))\<close>
    and \<open>\<not> str_contains ''chartView'' (ls ! (i + 2))\<close>
  shows \<open>fixup_loop (i # rest) ls =
           Inr (ls[i + 1 := fragment_close @ ls ! (i + 1)], [Updated_closing (i + 2)])\<close>
  using assms by (simp add: py_index_def)

lemma fixup_loop_raise:
  assumes \<open>i + 2 = length ls\<close>
    and \<open>str_contains ''</div>'' (ls ! i)\<close>
    and \<open>str_contains '')}\<newline>'' (ls ! (i + 1))\<close>
  shows \<open>fixup_loop (i # rest) ls = Inl IndexError\<close>
  using assms by (simp add: py_index_def)

lemma window_split:
  \<open>a \<le> i \<Longrightarrow> i < b \<Longrightarrow> [a..<b] = [a..<i] @ i # [Suc i..<b]\<close>
  by (metis le_add_diff_inverse less_imp_le_nat upt_add_eq_append upt_conv_Cons)

lemma fixup_miss:
  assumes \<open>\<forall>i. t + 50 \<le> i \<and> i < t + 100 \<and> i + 1 < length ls \<longrightarrow>
      \<not> (str_contains ''</div>'' (ls ! i) \<and> str_contains '')}\<newline>'' (ls ! (i + 1)) \<and>
         \<not> (i + 2 < length ls \<and> str_contains ''chartView'' (ls ! (i + 2))))\<close>
  shows \<open>fixup ls t = Inr (ls, [])\<close>
proof -
  have \<open>fixup_loop ([t + 50 ..< min (t + 100) (length ls - 1)] @ []) ls = fixup_loop [] ls\<close>
  proof (rule fixup_loop_pass)
    fix j assume \<open>j \<in> set [t + 50 ..< min (t + 100) (length ls - 1)]\<close>
    then have j: \<open>t + 50 \<le> j \<and> j < t + 100 \<and> j + 1 < length ls\<close> by auto
    with assms show \<open>j + 1 < length ls \<and>
      (str_contains ''</div>'' (ls ! j) \<and> str_contains '')}\<newline>'' (ls ! (j + 1))
         \<longrightarrow> j + 2 < length ls \<and> str_contains ''chartView'' (ls ! (j + 2)))\<close>
      by blast
  qed
  then show ?thesis by (simp add: fixup_def)
qed

lemma fixup_hit:
  assumes \<open>t + 50 \<le> i\<close> and \<open>i < t + 100\<close> and \<open>i + 2 < length ls\<close>
    and \<open>str_contains ''</div>'' (ls ! i)\<close>
    and \<open>str_contains '')}\<newline>'' (ls ! (i + 1))\<close>
    and \<open>\<not> str_contains ''chartView'' (ls ! (i + 2))\<close>
    and earlier: \<open>\<forall>j. t + 50 \<le> j \<and> j < i \<longrightarrow>
      \<not> (str_contains ''</div>'' (ls ! j) \<and> str_contains '')}\<newline>'' (ls ! (j + 1)) \<and>
         \<not> str_contains ''chartView'' (ls ! (j + 2)))\<close>
  shows \<open>fixup ls t =
           Inr (ls[i + 1 := fragment_close @ ls ! (i + 1)], [Updated_closing (i + 2)])\<close>
proof -
  let ?b = \<open>min (t + 100) (length ls - 1)\<close>
  have \<open>i < ?b\<close> using assms(2,3) by simp
  with assms(1) have split: \<open>[t + 50 ..< ?b] = [t + 50 ..< i] @ i # [Suc i ..< ?b]\<close>
    by (rule window_split)
  have \<open>fixup_loop ([t + 50 ..< i] @ i # [Suc i ..< ?b]) ls = fixup_loop (i # [Suc i ..< ?b]) ls\<close>
  proof (rule fixup_loop_pass)
    fix j assume \<open>j \<in> set [t + 50 ..< i]\<close>
    then have j: \<open>t + 50 \<le> j \<and> j < i\<close> by auto
    with assms(3) have \<open>j + 2 < length ls\<close> by simp
    with j earlier show \<open>j + 1 < length ls \<and>
      (str_contains ''</div>'' (ls ! j) \<and> str_contains '')}\<newline>'' (ls ! (j + 1))
         \<longrightarrow> j + 2 < length ls \<and> str_contains ''chartView'' (ls ! (j + 2)))\<close>
      by auto
  qed
  also have \<open>\<dots> = Inr (ls[i + 1 := fragment_close @ ls ! (i + 1)], [Updated_closing (i + 2)])\<close>
    using assms(3-6) by (rule fixup_loop_hit)
  finally show ?thesis unfolding fixup_def split .
qed

lemma fixup_raise:
  assumes \<open>t + 50 \<le> i\<close> and \<open>i < t + 100\<close> and \<open>i + 2 = length ls\<close>
    and \<open>str_contains ''</div>'' (ls ! i)\<close>
    and \<open>str_contains '')}\<newline>'' (ls ! (i + 1))\<close>
    and earlier: \<open>\<forall>j. t + 50 \<le> j \<and> j < i \<longrightarrow>
      \<not> (str_contains ''</div>'' (ls ! j) \<and> str_contains '')}\<newline>'' (ls ! (j + 1)) \<and>
         \<not> str_contains ''chartView'' (ls ! (j + 2)))\<close>
  shows \<open>fixup ls t = Inl IndexError\<close>
proof -
  let ?b = \<open>min (t + 100) (length ls - 1)\<close>
  have \<open>i < ?b\<close> using assms(2,3) by simp
  with assms(1) have split: \<open>[t + 50 ..< ?b] = [t + 50 ..< i] @ i # [Suc i ..< ?b]\<close>
    by (rule window_split)
  have \<open>fixup_loop ([t + 50 ..< i] @ i # [Suc i ..< ?b]) ls = fixup_loop (i # [Suc i ..< ?b]) ls\<close>
  proof (rule fixup_loop_pass)
    fix j assume \<open>j \<in> set [t + 50 ..< i]\<close>
    then have j: \<open>t + 50 \<le> j \<and> j < i\<close> by auto
    with assms(3) have \<open>j + 2 < length ls\<close> by simp
    with j earlier show \<open>j + 1 < length ls \<and>
      (str_contains ''</div>'' (ls ! j) \<and> str_contains '')}\<newline>'' (ls ! (j + 1))
         \<longrightarrow> j + 2 < length ls \<and> str_contains ''chartView'' (ls ! (j + 2)))\<close>
      by auto
  qed
  also have \<open>\<dots> = Inl IndexError\<close>
    using assms(3-5) by (rule fixup_loop_raise)
  finally show ?thesis unfolding fixup_def split .
qed

text \<open>
  C6, amended. The fixup acts on the first index \<open>i\<close> of the window (from
  \<open>t + 50\<close>, below \<open>t + 100\<close> and with two more lines behind it) whose line contains
  \<^verbatim>\<open></div>\<close>, whose next line contains \<^verbatim>\<open>)}\<close> with its newline, and whose
  second next line does not contain \<open>chartView\<close>. It puts the closing fragment token
  directly in front of line \<open>i + 1\<close>, reports line \<open>i + 2\<close>, and changes nothing else.
\<close>

theorem fixup_first_guarded_match:
  assumes \<open>t + 50 \<le> i\<close> and \<open>i < t + 100\<close> and \<open>i + 2 < length lines\<close>
    and \<open>str_contains ''</div>'' (lines ! i)\<close>
    and \<open>str_contains '')}\<newline>'' (lines ! (i + 1))\<close>
    and \<open>\<not> str_contains ''chartView'' (lines ! (i + 2))\<close>
    and \<open>\<forall>j. t + 50 \<le> j \<and> j < i \<longrightarrow>
      \<not> (str_contains ''</div>'' (lines ! j) \<and> str_contains '')}\<newline>'' (lines ! (j + 1)) \<and>
         \<not> str_contains ''chartView'' (lines ! (j + 2)))\<close>
  shows \<open>fixup lines t =
           Inr (lines[i + 1 := fragment_close @ lines ! (i + 1)], [Updated_closing (i + 2)]) \<and>
         writelines (lines[i + 1 := fragment_close @ lines ! (i + 1)]) =
           writelines (take (i + 1) lines) @ fragment_close @ writelines (drop (i + 1) lines)\<close>
proof
  show \<open>fixup lines t =
           Inr (lines[i + 1 := fragment_close @ lines ! (i + 1)], [Updated_closing (i + 2)])\<close>
    using assms by (rule fixup_hit)
  have \<open>i + 1 < length lines\<close> using assms(3) by simp
  then have \<open>lines[i + 1 := fragment_close @ lines ! (i + 1)] =
      take (i + 1) lines @ (fragment_close @ lines ! (i + 1)) # drop (Suc (i + 1)) lines\<close>
    by (rule upd_conv_take_nth_drop)
  moreover have \<open>drop (i + 1) lines = lines ! (i + 1) # drop (Suc (i + 1)) lines\<close>
    using \<open>i + 1 < length lines\<close> by (simp add: Cons_nth_drop_Suc)
  ultimately show \<open>writelines (lines[i + 1 := fragment_close @ lines ! (i + 1)]) =
           writelines (take (i + 1) lines) @ fragment_close @ writelines (drop (i + 1) lines)\<close>
    by (simp add: writelines_def)
qed

section \<open>fix\_chart\_controls.py: a window without the pattern\<close>

text \<open>
  C2. When the target line and the opening \<open>div\<close> behind it are found, and no index of
  the window has the closing pair without a \<open>chartView\<close> line behind it, the fixup
  changes nothing and reports nothing: the run prints only the target line and the
  success line, ends with status 0 and writes the lines as the insertion left them, the
  opening fragment token and the controls in place of the target line and no closing
  token added.
\<close>

theorem fixup_window_miss_is_silent:
  fixes content :: string and t :: nat and inserted :: \<open>string list\<close>
  defines \<open>inserted \<equiv> insert_controls (readlines content) t\<close>
  assumes \<open>disk chart_path = Some content\<close>
    and \<open>find_target (readlines content) = Some t\<close>
    and \<open>t + 1 < length (readlines content)\<close>
    and \<open>str_contains div_marker (readlines content ! (t + 1))\<close>
    and \<open>\<forall>i. t + 50 \<le> i \<and> i < t + 100 \<and> i + 1 < length inserted \<longrightarrow>
      \<not> (str_contains ''</div>'' (inserted ! i) \<and>
         str_contains '')}\<newline>'' (inserted ! (i + 1)) \<and>
         \<not> (i + 2 < length inserted \<and> str_contains ''chartView'' (inserted ! (i + 2))))\<close>
  shows \<open>run_script fix_chart_controls disk =
           (\<lparr>ended = Exit 0, printed = [Found_target (t + 1), Controls_updated],
             written = Some (writelines inserted)\<rparr>,
            disk(chart_path \<mapsto> writelines inserted)) \<and>
         inserted =
           take t (readlines content) @ new_lines (readlines content ! t) @
           drop (Suc t) (readlines content)\<close>
proof
  have \<open>fixup inserted t = Inr (inserted, [])\<close>
    using assms(6) by (rule fixup_miss)
  then show \<open>run_script fix_chart_controls disk =
           (\<lparr>ended = Exit 0, printed = [Found_target (t + 1), Controls_updated],
             written = Some (writelines inserted)\<rparr>,
            disk(chart_path \<mapsto> writelines inserted))\<close>
    using assms(2-5)
    by (simp add: run_script_def fix_chart_controls_def fix_chart_controls_lines_def
        py_index_def inserted_def)
  show \<open>inserted =
           take t (readlines content) @ new_lines (readlines content ! t) @
           drop (Suc t) (readlines content)\<close>
    unfolding inserted_def using assms(4) by (intro insert_controls_eq) simp
qed

section \<open>Missing anchors in the scripts that test for them\<close>

text \<open>
  C1, amended. The two scripts that test for their anchors stop on a missing one: when
  the opening block or (after its replacement) the closing block is absent,
  \<^verbatim>\<open>update_chart_controls.py\<close> prints a diagnostic, ends with status 1 and leaves
  the disk as it was; so does \<^verbatim>\<open>fix_chart_controls.py\<close> when no line past the
  floor contains the marker, or when the line behind the target is not the expected
  \<open>div\<close>.
\<close>

theorem missing_anchor_aborts:
  assumes \<open>disk chart_path = Some content\<close>
  shows \<open>(\<not> str_contains old_section content \<longrightarrow>
            run_script update_chart_controls disk =
              (\<lparr>ended = Exit 1,
                printed = [Section_not_found,
                           if str_contains div_probe content then Div_found_exact_match_failed
                           else Div_not_found],
                written = None\<rparr>, disk)) \<and>
         (str_contains old_section content \<and>
          \<not> str_contains old_close (str_replace content old_section new_section) \<longrightarrow>
            run_script update_chart_controls disk =
              (\<lparr>ended = Exit 1, printed = [Section_replaced, Closing_not_found],
                written = None\<rparr>, disk)) \<and>
         (find_target (readlines content) = None \<longrightarrow>
            run_script fix_chart_controls disk =
              (\<lparr>ended = Exit 1, printed = [Target_not_found], written = None\<rparr>, disk)) \<and>
         (\<forall>t. find_target (readlines content) = Some t \<and> t + 1 < length (readlines content) \<and>
              \<not> str_contains div_marker (readlines content ! (t + 1)) \<longrightarrow>
            run_script fix_chart_controls disk =
              (\<lparr>ended = Exit 1, printed = [Found_target (t + 1), Unexpected_structure],
                written = None\<rparr>, disk))\<close>
  using assms
  by (simp add: run_script_def update_chart_controls_def fix_chart_controls_def
      fix_chart_controls_lines_def py_index_def)

section \<open>Determinism\<close>

lemma run_script_other_files:
  \<open>p \<noteq> chart_path \<Longrightarrow> snd (run_script transform disk) p = disk p\<close>
  by (simp add: run_script_def Let_def split: option.splits)



section \<open>The sample documents\<close>

lemma new_lines_length: \<open>length (new_lines l) = 31\<close>
  by (simp add: new_lines_def new_lines_tail_def)

lemma blank_terminated:
  \<open>blank \<noteq> [] \<and> last blank = CHR ''\<newline>'' \<and> CHR ''\<newline>'' \<notin> set (butlast blank)\<close>
  by (simp add: blank_def)

lemma marker_line_terminated:
  \<open>marker_line \<noteq> [] \<and> last marker_line = CHR ''\<newline>'' \<and>
   CHR ''\<newline>'' \<notin> set (butlast marker_line)\<close>
  by (simp add: marker_line_def)

lemma div_line_terminated:
  \<open>div_line \<noteq> [] \<and> last div_line = CHR ''\<newline>'' \<and>
   CHR ''\<newline>'' \<notin> set (butlast div_line)\<close>
  by (simp add: div_line_def)

lemma blank_no_div: \<open>\<not> str_contains ''</div>'' blank\<close>
  unfolding str_contains_def
  by (rule shorter_not_contains) (simp add: blank_def)

lemma div_marker_in_div_line: \<open>str_contains div_marker div_line\<close>
proof -
  have eq: \<open>div_line = ''                       '' @ div_marker @ '' ref={metricConfigRef}>\<newline>''\<close>
    by (simp add: div_line_def div_marker_def)
  show ?thesis unfolding str_contains_def by (subst eq) (rule sublist_appendI)
qed

text \<open>Documents that begin with 201 empty lines and the line of the conditional.\<close>

lemma sample_readlines:
  assumes \<open>\<forall>l \<in> set rest. l \<noteq> [] \<and> last l = CHR ''\<newline>'' \<and> CHR ''\<newline>'' \<notin> set (butlast l)\<close>
  shows \<open>readlines (writelines (replicate 201 blank @ marker_line # rest)) =
           replicate 201 blank @ marker_line # rest\<close>
  unfolding writelines_def
  using assms blank_terminated marker_line_terminated
  by (intro readlines_terminated) auto

lemma sample_target:
  \<open>find_target (replicate 201 blank @ marker_line # rest) = Some 201\<close>
  by (rule find_target_201) (simp_all add: nth_append marker_in_marker_line)

lemma sample_inserted:
  \<open>insert_controls (replicate 201 blank @ marker_line # rest) 201 =
     replicate 201 blank @ new_lines marker_line @ rest\<close>
  by (simp add: insert_controls_eq nth_append)

lemma inserted_nth:
  \<open>(replicate 201 blank @ new_lines marker_line @ rest) ! (232 + k) = rest ! k\<close>
  by (simp add: nth_append new_lines_length)


subsection \<open>The line of the conditional is the last line\<close>

lemma marker_last_run:
  \<open>fix_chart_controls (writelines marker_last) =
     \<lparr>ended = Uncaught IndexError, printed = [Found_target 202], written = None\<rparr>\<close>
proof -
  have rl: \<open>readlines (writelines marker_last) = replicate 201 blank @ marker_line # []\<close>
    unfolding marker_last_def using sample_readlines [of \<open>[]\<close>] by simp
  show ?thesis
    by (simp add: fix_chart_controls_def fix_chart_controls_lines_def rl sample_target
        py_index_def)
qed

subsection \<open>The document ends with the closing pair\<close>

lemma closing_at_end_run:
  \<open>fix_chart_controls (writelines closing_at_end) =
     \<lparr>ended = Uncaught IndexError, printed = [Found_target 202], written = None\<rparr>\<close>
proof -
  let ?rest = \<open>div_line # replicate 18 blank @
     [''                       </div>\<newline>'', ''                    )}\<newline>'']\<close>
  let ?ins = \<open>replicate 201 blank @ new_lines marker_line @ ?rest\<close>
  have rl: \<open>readlines (writelines closing_at_end) = replicate 201 blank @ marker_line # ?rest\<close>
    unfolding closing_at_end_def
    using sample_readlines [of ?rest] blank_terminated div_line_terminated by simp
  have len: \<open>length ?ins = 253\<close> by (simp add: new_lines_length)
  have n251: \<open>?ins ! 251 = ''                       </div>\<newline>''\<close>
    using inserted_nth [of ?rest 19] by (simp add: nth_append)
  have n252: \<open>?ins ! 252 = ''                    )}\<newline>''\<close>
    using inserted_nth [of ?rest 20] by (simp add: nth_append)
  have \<open>fixup ?ins 201 = Inl IndexError\<close>
  proof (rule fixup_raise [where i = 251])
    show \<open>str_contains ''</div>'' (?ins ! 251)\<close>
      unfolding n251 by (simp add: str_contains_def sublist_code(3))
    show \<open>str_contains '')}\<newline>'' (?ins ! (251 + 1))\<close>
      using n252 by (simp add: str_contains_def sublist_code(3))
    show \<open>251 + 2 = length ?ins\<close> by (simp only: len)
    show \<open>\<forall>j. 201 + 50 \<le> j \<and> j < 251 \<longrightarrow>
      \<not> (str_contains ''</div>'' (?ins ! j) \<and> str_contains '')}\<newline>'' (?ins ! (j + 1)) \<and>
         \<not> str_contains ''chartView'' (?ins ! (j + 2)))\<close>
    proof (intro allI impI)
      fix j :: nat
      assume \<open>201 + 50 \<le> j \<and> j < 251\<close>
      then have False by arith
      then show \<open>\<not> (str_contains ''</div>'' (?ins ! j) \<and>
          str_contains '')}\<newline>'' (?ins ! (j + 1)) \<and>
          \<not> str_contains ''chartView'' (?ins ! (j + 2)))\<close> ..
    qed
  qed simp_all
  then show ?thesis
    by (simp add: fix_chart_controls_def fix_chart_controls_lines_def rl sample_target
        py_index_def nth_append div_marker_in_div_line sample_inserted)
qed

text \<open>
  C9. Both unguarded index reads can raise. When the line of the conditional is the
  last line of the file, reading the line behind it raises; when the closing pair is
  found at the very end of the file, reading the line behind the pair raises. In both
  runs the exception is not caught: the run ends with a traceback (status 1) after
  printing the target line, and the disk is as it was.
\<close>

theorem fix_chart_controls_index_errors:
  \<open>run_script fix_chart_controls [chart_path \<mapsto> writelines marker_last] =
     (\<lparr>ended = Uncaught IndexError, printed = [Found_target 202], written = None\<rparr>,
      [chart_path \<mapsto> writelines marker_last]) \<and>
   run_script fix_chart_controls [chart_path \<mapsto> writelines closing_at_end] =
     (\<lparr>ended = Uncaught IndexError, printed = [Found_target 202], written = None\<rparr>,
      [chart_path \<mapsto> writelines closing_at_end])\<close>
  by (simp add: run_script_def marker_last_run closing_at_end_run)

subsection \<open>Two closing pairs, the first before another conditional\<close>

lemma two_closings_readlines:
  \<open>readlines (writelines two_closings) = two_closings\<close>
proof -
  have \<open>readlines (writelines (replicate 201 blank @ marker_line #
      div_line # replicate 18 blank @ two_closings_end)) =
    replicate 201 blank @ marker_line # div_line # replicate 18 blank @ two_closings_end\<close>
    using blank_terminated div_line_terminated
    by (intro sample_readlines) (auto simp: two_closings_end_def)
  then show ?thesis by (simp add: two_closings_def)
qed

lemma two_closings_inserted:
  \<open>insert_controls two_closings 201 =
     replicate 201 blank @ new_lines marker_line @
     div_line # replicate 18 blank @ two_closings_end\<close>
  using sample_inserted [of \<open>div_line # replicate 18 blank @ two_closings_end\<close>]
  by (simp add: two_closings_def)

lemma two_closings_inserted_length: \<open>length (insert_controls two_closings 201) = 258\<close>
  by (simp add: two_closings_inserted new_lines_length two_closings_end_def)

lemma two_closings_inserted_nth:
  \<open>k < 7 \<Longrightarrow> insert_controls two_closings 201 ! (251 + k) = two_closings_end ! k\<close>
  using inserted_nth [of \<open>div_line # replicate 18 blank @ two_closings_end\<close> \<open>19 + k\<close>]
  by (simp add: two_closings_inserted nth_append add.commute add.left_commute)

lemma two_closings_lines:
  \<open>insert_controls two_closings 201 ! 251 = two_closings_end ! 0\<close>
  \<open>insert_controls two_closings 201 ! 252 = two_closings_end ! 1\<close>
  \<open>insert_controls two_closings 201 ! 253 = two_closings_end ! 2\<close>
  \<open>insert_controls two_closings 201 ! 254 = two_closings_end ! 3\<close>
  \<open>insert_controls two_closings 201 ! 255 = two_closings_end ! 4\<close>
  \<open>insert_controls two_closings 201 ! 256 = two_closings_end ! 5\<close>
  using two_closings_inserted_nth [of 0] two_closings_inserted_nth [of 1]
    two_closings_inserted_nth [of 2] two_closings_inserted_nth [of 3]
    two_closings_inserted_nth [of 4] two_closings_inserted_nth [of 5]
  by simp_all

lemma two_closings_earlier:
  \<open>\<forall>j. 201 + 50 \<le> j \<and> j < 254 \<longrightarrow>
     \<not> (str_contains ''</div>'' (insert_controls two_closings 201 ! j) \<and>
        str_contains '')}\<newline>'' (insert_controls two_closings 201 ! (j + 1)) \<and>
        \<not> str_contains ''chartView'' (insert_controls two_closings 201 ! (j + 2)))\<close>
proof (intro allI impI)
  fix j :: nat
  assume \<open>201 + 50 \<le> j \<and> j < 254\<close>
  then consider \<open>j = 251\<close> | \<open>j = 252\<close> | \<open>j = 253\<close> by arith
  then show \<open>\<not> (str_contains ''</div>'' (insert_controls two_closings 201 ! j) \<and>
        str_contains '')}\<newline>'' (insert_controls two_closings 201 ! (j + 1)) \<and>
        \<not> str_contains ''chartView'' (insert_controls two_closings 201 ! (j + 2)))\<close>
    by cases (simp_all add: two_closings_lines two_closings_end_def str_contains_def sublist_code(3))
qed

lemma two_closings_fixup:
  \<open>fixup (insert_controls two_closings 201) 201 =
     Inr ((insert_controls two_closings 201)
            [255 := fragment_close @ insert_controls two_closings 201 ! 255],
          [Updated_closing 256])\<close>
  using fixup_hit [where ls = \<open>insert_controls two_closings 201\<close> and t = 201 and i = 254,
      OF _ _ _ _ _ _ two_closings_earlier]
  by (simp add: two_closings_inserted_length two_closings_lines two_closings_end_def str_contains_def sublist_code(3))

lemma two_closings_claimed:
  \<open>claimed_fixup (insert_controls two_closings 201) 201 =
     ((insert_controls two_closings 201)
        [252 := fragment_close @ insert_controls two_closings 201 ! 252],
      [Updated_closing 253])\<close>
  by (simp add: claimed_fixup_def two_closings_inserted_length upt_conv_Cons
      two_closings_lines two_closings_end_def str_contains_def sublist_code(3))

text \<open>
  C6 as stated fails on \<open>two_closings\<close>. The window starts at index 251 of the lines
  after the insertion; lines 251 and 252 are a closing pair, so the fixup as the claim
  words it puts the token in front of line 252. The script puts it in front of line 255:
  line 253 contains \<open>chartView\<close>, and the script passes over a pair that is followed by
  such a line.
\<close>

theorem fixup_passes_pair_before_chartView:
  \<open>str_contains ''</div>'' (insert_controls two_closings 201 ! 251) \<and>
   str_contains '')}\<newline>'' (insert_controls two_closings 201 ! 252) \<and>
   claimed_fixup (insert_controls two_closings 201) 201 =
     ((insert_controls two_closings 201)
        [252 := fragment_close @ insert_controls two_closings 201 ! 252],
      [Updated_closing 253]) \<and>
   fixup (insert_controls two_closings 201) 201 =
     Inr ((insert_controls two_closings 201)
            [255 := fragment_close @ insert_controls two_closings 201 ! 255],
          [Updated_closing 256]) \<and>
   fixup (insert_controls two_closings 201) 201 \<noteq>
     Inr (claimed_fixup (insert_controls two_closings 201) 201) \<and>
   run_script fix_chart_controls [chart_path \<mapsto> writelines two_closings] =
     (\<lparr>ended = Exit 0,
       printed = [Found_target 202, Updated_closing 256, Controls_updated],
       written = Some (writelines ((insert_controls two_closings 201)
            [255 := fragment_close @ insert_controls two_closings 201 ! 255]))\<rparr>,
      [chart_path \<mapsto> writelines ((insert_controls two_closings 201)
            [255 := fragment_close @ insert_controls two_closings 201 ! 255])])\<close>
proof -
  have target: \<open>find_target two_closings = Some 201\<close>
    using sample_target [of \<open>div_line # replicate 18 blank @ two_closings_end\<close>]
    by (simp add: two_closings_def)
  have next_line: \<open>two_closings ! 202 = div_line\<close>
    by (simp add: two_closings_def nth_append)
  have len: \<open>202 < length two_closings\<close>
    by (simp add: two_closings_def)
  have run: \<open>fix_chart_controls (writelines two_closings) =
     \<lparr>ended = Exit 0,
       printed = [Found_target 202, Updated_closing 256, Controls_updated],
       written = Some (writelines ((insert_controls two_closings 201)
            [255 := fragment_close @ insert_controls two_closings 201 ! 255]))\<rparr>\<close>
    using len
    by (simp add: fix_chart_controls_def fix_chart_controls_lines_def two_closings_readlines
        target py_index_def next_line div_marker_in_div_line two_closings_fixup)
  show ?thesis
    by (simp add: two_closings_lines two_closings_end_def str_contains_def sublist_code(3) two_closings_fixup
        two_closings_claimed run_script_def run)
qed

text \<open>
  An instance of C6 as amended, on the same lines: the first index of the window with a
  closing pair and no \<open>chartView\<close> line behind it is 254.
\<close>

theorem fixup_first_guarded_match_witness:
  \<open>fixup (insert_controls two_closings 201) 201 =
     Inr ((insert_controls two_closings 201)
            [254 + 1 := fragment_close @ insert_controls two_closings 201 ! (254 + 1)],
          [Updated_closing (254 + 2)]) \<and>
   writelines ((insert_controls two_closings 201)
       [254 + 1 := fragment_close @ insert_controls two_closings 201 ! (254 + 1)]) =
     writelines (take (254 + 1) (insert_controls two_closings 201)) @ fragment_close @
     writelines (drop (254 + 1) (insert_controls two_closings 201))\<close>
proof (rule fixup_first_guarded_match [where t = 201])
  show \<open>\<forall>j. 201 + 50 \<le> j \<and> j < 254 \<longrightarrow>
     \<not> (str_contains ''</div>'' (insert_controls two_closings 201 ! j) \<and>
        str_contains '')}\<newline>'' (insert_controls two_closings 201 ! (j + 1)) \<and>
        \<not> str_contains ''chartView'' (insert_controls two_closings 201 ! (j + 2)))\<close>
    by (rule two_closings_earlier)
qed (simp_all add: two_closings_inserted_length two_closings_lines two_closings_end_def str_contains_def sublist_code(3))


subsection \<open>Only empty lines behind the opening div\<close>

lemma no_closing_readlines: \<open>readlines (writelines no_closing) = no_closing\<close>
proof -
  have \<open>readlines (writelines (replicate 201 blank @ marker_line #
      div_line # replicate 30 blank)) =
    replicate 201 blank @ marker_line # div_line # replicate 30 blank\<close>
    using blank_terminated div_line_terminated
    by (intro sample_readlines) auto
  then show ?thesis by (simp add: no_closing_def)
qed

lemma no_closing_inserted:
  \<open>insert_controls no_closing 201 =
     replicate 201 blank @ new_lines marker_line @ div_line # replicate 30 blank\<close>
  using sample_inserted [of \<open>div_line # replicate 30 blank\<close>]
  by (simp add: no_closing_def)

lemma no_closing_window:
  assumes \<open>251 \<le> i\<close> and \<open>i + 1 < length (insert_controls no_closing 201)\<close>
  shows \<open>insert_controls no_closing 201 ! i = blank\<close>
proof -
  from assms have i: \<open>i < 263\<close> by (simp add: no_closing_inserted new_lines_length)
  define k where \<open>k = i - 232\<close>
  with assms(1) have k: \<open>i = 232 + k\<close> and \<open>19 \<le> k\<close> by simp_all
  with i have \<open>(div_line # replicate 30 blank) ! k = blank\<close>
    by (simp add: nth_Cons')
  with inserted_nth [of \<open>div_line # replicate 30 blank\<close> k] k
  show ?thesis by (simp add: no_closing_inserted)
qed

text \<open>
  An instance of C2: on \<open>no_closing\<close> the window holds empty lines only. The run ends
  with status 0 and writes the lines with the controls inserted and no closing token.
\<close>

theorem fixup_window_miss_is_silent_witness:
  \<open>run_script fix_chart_controls [chart_path \<mapsto> writelines no_closing] =
     (\<lparr>ended = Exit 0, printed = [Found_target (201 + 1), Controls_updated],
       written = Some (writelines (insert_controls no_closing 201))\<rparr>,
      [chart_path \<mapsto> writelines (insert_controls no_closing 201)]) \<and>
   insert_controls no_closing 201 =
     take 201 no_closing @ new_lines (no_closing ! 201) @ drop (Suc 201) no_closing\<close>
proof -
  have target: \<open>find_target no_closing = Some 201\<close>
    using sample_target [of \<open>div_line # replicate 30 blank\<close>]
    by (simp add: no_closing_def)
  have next_line: \<open>no_closing ! (201 + 1) = div_line\<close>
    by (simp add: no_closing_def nth_append)
  have len: \<open>201 + 1 < length no_closing\<close>
    by (simp add: no_closing_def)
  have window: \<open>\<forall>i. 201 + 50 \<le> i \<and> i < 201 + 100 \<and>
        i + 1 < length (insert_controls no_closing 201) \<longrightarrow>
      \<not> (str_contains ''</div>'' (insert_controls no_closing 201 ! i) \<and>
         str_contains '')}\<newline>'' (insert_controls no_closing 201 ! (i + 1)) \<and>
         \<not> (i + 2 < length (insert_controls no_closing 201) \<and>
            str_contains ''chartView'' (insert_controls no_closing 201 ! (i + 2))))\<close>
  proof (intro allI impI)
    fix i :: nat
    assume \<open>201 + 50 \<le> i \<and> i < 201 + 100 \<and> i + 1 < length (insert_controls no_closing 201)\<close>
    then have \<open>insert_controls no_closing 201 ! i = blank\<close>
      by (intro no_closing_window) simp_all
    with blank_no_div
    show \<open>\<not> (str_contains ''</div>'' (insert_controls no_closing 201 ! i) \<and>
         str_contains '')}\<newline>'' (insert_controls no_closing 201 ! (i + 1)) \<and>
         \<not> (i + 2 < length (insert_controls no_closing 201) \<and>
            str_contains ''chartView'' (insert_controls no_closing 201 ! (i + 2))))\<close>
      by simp
  qed
  from fixup_window_miss_is_silent [where disk = \<open>[chart_path \<mapsto> writelines no_closing]\<close>
      and content = \<open>writelines no_closing\<close> and t = 201]
    target next_line len window div_marker_in_div_line
  show ?thesis by (simp add: no_closing_readlines)
qed

subsection \<open>fix\_chart\_final.py does not stop on a missing block\<close>

lemma closing_absent_after_replace:
  \<open>\<not> str_contains old_close (str_replace old_section old_section new_section)\<close>
proof -
  have \<open>str_replace old_section old_section new_section = new_section\<close>
    using replace_scan_at_match [OF old_section_nonempty, of new_section \<open>[]\<close>]
    by (simp add: str_replace_def old_section_nonempty)
  then show ?thesis using old_close_notin_new_section by simp
qed

lemma span_follows_readlines: \<open>readlines (writelines span_follows) = span_follows\<close>
proof -
  have \<open>readlines (writelines (replicate 201 blank @ marker_line # [''<span>\<newline>''])) =
    replicate 201 blank @ marker_line # [''<span>\<newline>'']\<close>
    by (intro sample_readlines) auto
  then show ?thesis by (simp add: span_follows_def)
qed

lemma marker_early_readlines: \<open>readlines (writelines marker_early) = marker_early\<close>
  unfolding writelines_def
  using marker_line_terminated div_line_terminated
  by (intro readlines_terminated) (auto simp: marker_early_def)

text \<open>
  Instances of C1 as amended, one for each of the four tests: a document without the
  opening block, the opening block alone, \<open>marker_early\<close> and \<open>span_follows\<close>.
\<close>

theorem missing_anchor_aborts_witness:
  \<open>run_script update_chart_controls [chart_path \<mapsto> ''export default App;\<newline>''] =
     (\<lparr>ended = Exit 1, printed = [Section_not_found, Div_not_found], written = None\<rparr>,
      [chart_path \<mapsto> ''export default App;\<newline>'']) \<and>
   run_script update_chart_controls [chart_path \<mapsto> old_section] =
     (\<lparr>ended = Exit 1, printed = [Section_replaced, Closing_not_found], written = None\<rparr>,
      [chart_path \<mapsto> old_section]) \<and>
   run_script fix_chart_controls [chart_path \<mapsto> writelines marker_early] =
     (\<lparr>ended = Exit 1, printed = [Target_not_found], written = None\<rparr>,
      [chart_path \<mapsto> writelines marker_early]) \<and>
   run_script fix_chart_controls [chart_path \<mapsto> writelines span_follows] =
     (\<lparr>ended = Exit 1, printed = [Found_target 202, Unexpected_structure], written = None\<rparr>,
      [chart_path \<mapsto> writelines span_follows])\<close>
proof -
  let ?app = \<open>''export default App;\<newline>''\<close>
  have a1: \<open>\<not> str_contains old_section ?app\<close>
    unfolding str_contains_def
    by (rule shorter_not_contains) (simp add: old_section_def)
  have a2: \<open>\<not> str_contains div_probe ?app\<close>
    unfolding str_contains_def
    by (rule shorter_not_contains) (simp add: div_probe_def)
  have b1: \<open>str_contains old_section old_section\<close> by (simp add: str_contains_def)
  have \<open>find_target marker_early = None\<close>
    by (simp add: find_target_def find_target_from_None marker_early_def)
  then have c1: \<open>find_target (readlines (writelines marker_early)) = None\<close>
    by (simp only: marker_early_readlines)
  have d1: \<open>find_target (readlines (writelines span_follows)) = Some 201\<close>
    unfolding span_follows_readlines
    using sample_target [of \<open>[''<span>\<newline>'']\<close>] by (simp add: span_follows_def)
  have d2: \<open>201 + 1 < length (readlines (writelines span_follows))\<close>
    unfolding span_follows_readlines by (simp add: span_follows_def)
  have d3: \<open>\<not> str_contains div_marker (readlines (writelines span_follows) ! (201 + 1))\<close>
    unfolding span_follows_readlines
    by (simp add: span_follows_def nth_append str_contains_def div_marker_def sublist_code(3))
  from missing_anchor_aborts [where disk = \<open>[chart_path \<mapsto> ?app]\<close> and content = ?app]
    a1 a2
  have a: \<open>run_script update_chart_controls [chart_path \<mapsto> ?app] =
     (\<lparr>ended = Exit 1, printed = [Section_not_found, Div_not_found], written = None\<rparr>,
      [chart_path \<mapsto> ?app])\<close>
    by simp
  from missing_anchor_aborts [where disk = \<open>[chart_path \<mapsto> old_section]\<close>
      and content = old_section] b1 closing_absent_after_replace
  have b: \<open>run_script update_chart_controls [chart_path \<mapsto> old_section] =
     (\<lparr>ended = Exit 1, printed = [Section_replaced, Closing_not_found], written = None\<rparr>,
      [chart_path \<mapsto> old_section])\<close>
    by simp
  from missing_anchor_aborts [where disk = \<open>[chart_path \<mapsto> writelines marker_early]\<close>
      and content = \<open>writelines marker_early\<close>] c1
  have c: \<open>run_script fix_chart_controls [chart_path \<mapsto> writelines marker_early] =
     (\<lparr>ended = Exit 1, printed = [Target_not_found], written = None\<rparr>,
      [chart_path \<mapsto> writelines marker_early])\<close>
    by simp
  from missing_anchor_aborts [where disk = \<open>[chart_path \<mapsto> writelines span_follows]\<close>
      and content = \<open>writelines span_follows\<close>] d1 d2 d3
  have d: \<open>run_script fix_chart_controls [chart_path \<mapsto> writelines span_follows] =
     (\<lparr>ended = Exit 1, printed = [Found_target 202, Unexpected_structure], written = None\<rparr>,
      [chart_path \<mapsto> writelines span_follows])\<close>
    by simp
  from a b c d show ?thesis by (intro conjI)
qed

subsection \<open>Determinism\<close>


section \<open>The sample chart component\<close>

















end
